theory Spec2Isabelle
  imports Complex_Main "HOL-Library.Multiset"
begin

section \<open>Python values\<close>

text \<open>
  The packets handed over by the device library and the entries of its node table are
  Python dictionaries of dynamically typed values.  \<open>PFloat r\<close> stands for a float of
  value \<open>r\<close>; the code below only tests, compares and passes such values on, it never
  computes with them.  A dictionary is an association list in insertion order; looking
  a key up takes the first entry whose key is equal in Python's sense.
\<close>

datatype pyval =
    PNone
  | PBool bool
  | PInt int
  | PFloat real
  | PStr string
  | PList "pyval list"
  | PDict "(pyval \<times> pyval) list"

type_synonym pydict = "(pyval \<times> pyval) list"

datatype py_error = TypeError | AttributeError

text \<open>Truth value of an object, as tested by \<^verbatim>\<open>if x\<close>, \<^verbatim>\<open>not x\<close> and \<^verbatim>\<open>x or y\<close>.\<close>

fun truthy :: "pyval \<Rightarrow> bool" where
  "truthy PNone = False"
| "truthy (PBool b) = b"
| "truthy (PInt i) = (i \<noteq> 0)"
| "truthy (PFloat r) = (r \<noteq> 0)"
| "truthy (PStr s) = (s \<noteq> [])"
| "truthy (PList xs) = (xs \<noteq> [])"
| "truthy (PDict d) = (d \<noteq> [])"

text \<open>\<^verbatim>\<open>a or b\<close>: the first operand when it is true, else the second.\<close>

definition py_or :: "pyval \<Rightarrow> pyval \<Rightarrow> pyval" where
  "py_or a b = (if truthy a then a else b)"

text \<open>Numbers compare by value across \<^verbatim>\<open>bool\<close>, \<^verbatim>\<open>int\<close> and \<^verbatim>\<open>float\<close>.\<close>

fun num_of :: "pyval \<Rightarrow> real option" where
  "num_of (PBool b) = Some (if b then 1 else 0)"
| "num_of (PInt i) = Some (of_int i)"
| "num_of (PFloat r) = Some r"
| "num_of PNone = None"
| "num_of (PStr s) = None"
| "num_of (PList xs) = None"
| "num_of (PDict d) = None"

text \<open>Lists and dictionaries are not hashable: using one as a key raises \<^verbatim>\<open>TypeError\<close>.\<close>

fun hashable :: "pyval \<Rightarrow> bool" where
  "hashable (PList xs) = False"
| "hashable (PDict d) = False"
| "hashable PNone = True"
| "hashable (PBool b) = True"
| "hashable (PInt i) = True"
| "hashable (PFloat r) = True"
| "hashable (PStr s) = True"

definition key_eq :: "pyval \<Rightarrow> pyval \<Rightarrow> bool" where
  "key_eq a b =
     (case num_of a of
        Some x \<Rightarrow> (case num_of b of Some y \<Rightarrow> x = y | None \<Rightarrow> False)
      | None \<Rightarrow> (case num_of b of Some y \<Rightarrow> False | None \<Rightarrow> a = b))"

fun dict_find :: "pydict \<Rightarrow> pyval \<Rightarrow> pyval option" where
  "dict_find [] k = None"
| "dict_find ((k', v) # d) k = (if key_eq k' k then Some v else dict_find d k)"

text \<open>\<^verbatim>\<open>k in d\<close> and \<^verbatim>\<open>d.get(k, default)\<close> on a dictionary, for a hashable key.\<close>

definition py_in :: "pyval \<Rightarrow> pydict \<Rightarrow> bool" where
  "py_in k d = (dict_find d k \<noteq> None)"

definition dict_get :: "pydict \<Rightarrow> pyval \<Rightarrow> pyval \<Rightarrow> pyval" where
  "dict_get d k dflt = (case dict_find d k of None \<Rightarrow> dflt | Some v \<Rightarrow> v)"

text \<open>
  \<^verbatim>\<open>obj.get(k, default)\<close> on any object: only a dictionary has the method
  (\<^verbatim>\<open>AttributeError\<close> otherwise), and the key must be hashable.
\<close>

definition py_get :: "pyval \<Rightarrow> pyval \<Rightarrow> pyval \<Rightarrow> py_error + pyval" where
  "py_get obj k dflt =
     (case obj of
        PDict d \<Rightarrow> (if hashable k then Inr (dict_get d k dflt) else Inl TypeError)
      | _ \<Rightarrow> Inl AttributeError)"

section \<open>The Meshtastic client\<close>

text \<open>
  The serial interface of the device library, as far as the client uses it: the node
  table \<^verbatim>\<open>nodes\<close>, the calls of \<^verbatim>\<open>sendText\<close> made so far (text and destination),
  whether \<^verbatim>\<open>sendText\<close> raises for a given text, and whether \<^verbatim>\<open>close\<close> raises.  An
  interface whose node table is still \<^verbatim>\<open>None\<close> is the one with the empty table: the
  lookup raises there, is caught, and the name stays the sender id, as it does when the
  table has no entry.
\<close>

record serial_interface =
  nodes :: pydict
  sendText_calls :: "(string \<times> string option) list"
  sendText_raises :: "string \<Rightarrow> bool"
  close_raises :: bool

record meshtastic_client =
  device_path :: string
  interface :: "serial_interface option"
  connected :: bool

text \<open>The dictionaries returned by \<^verbatim>\<open>_process_packet\<close>, one constructor per \<^verbatim>\<open>'type'\<close>.\<close>

datatype message =
    DirectMessage
      (m_from_id : pyval) (m_from_num : pyval) (m_to_id : pyval) (m_text : pyval)
      (m_timestamp : pyval) (m_raw_packet : pydict)
  | Telemetry
      (m_from_id : pyval) (m_from_num : pyval)
      (m_battery_level : pyval) (m_voltage : pyval) (m_channel_utilization : pyval)
      (m_air_util_tx : pyval) (m_uptime_seconds : pyval)
      (m_timestamp : pyval) (m_raw_packet : pydict)

text \<open>\<^verbatim>\<open>self.interface.nodes.get(from_id) or self.interface.nodes.get(from_num)\<close>\<close>

definition lookup_node :: "pydict \<Rightarrow> pyval \<Rightarrow> pyval \<Rightarrow> py_error + pyval" where
  "lookup_node ns from_id from_num =
     (case py_get (PDict ns) from_id PNone of
        Inl e \<Rightarrow> Inl e
      | Inr by_id \<Rightarrow> if truthy by_id then Inr by_id else py_get (PDict ns) from_num PNone)"

text \<open>
  Lines 117 to 122 of \<^verbatim>\<open>_process_packet\<close>, for a node entry that is true.  Only a
  dictionary with a \<^verbatim>\<open>'user'\<close> dictionary changes the name.  For an entry of any other
  type, \<^verbatim>\<open>'user' in node\<close> is false or raises, or \<^verbatim>\<open>node['user']\<close> raises; the
  enclosing \<^verbatim>\<open>try\<close> catches it and the name stays the sender id.
\<close>

definition node_name :: "pyval \<Rightarrow> pyval \<Rightarrow> pyval" where
  "node_name node from_id =
     (case node of
        PDict nd \<Rightarrow>
          if py_in (PStr ''user'') nd then
            (case py_get (dict_get nd (PStr ''user'') PNone) (PStr ''longName'') PNone of
               Inl e \<Rightarrow> from_id
             | Inr longName \<Rightarrow>
                 (case py_get (dict_get nd (PStr ''user'') PNone) (PStr ''shortName'') PNone of
                    Inl e \<Rightarrow> from_id
                  | Inr shortName \<Rightarrow> py_or (py_or longName shortName) from_id))
          else from_id
      | _ \<Rightarrow> from_id)"

text \<open>Lines 110 to 125: the friendly name of the sender.\<close>

definition resolve_from_name :: "serial_interface option \<Rightarrow> pyval \<Rightarrow> pyval \<Rightarrow> pyval" where
  "resolve_from_name iface from_id from_num =
     (case iface of
        None \<Rightarrow> from_id
      | Some i \<Rightarrow>
          if truthy from_num then
            (case lookup_node (nodes i) from_id from_num of
               Inl e \<Rightarrow> from_id
             | Inr node \<Rightarrow> if truthy node then node_name node from_id else from_id)
          else from_id)"

text \<open>
  \<^verbatim>\<open>_process_packet\<close>.  The argument \<open>now\<close> is the value of \<^verbatim>\<open>int(time.time())\<close> at the
  call.  Every exception raised in the body is caught by the outer \<^verbatim>\<open>try\<close>, which
  returns \<^verbatim>\<open>None\<close>.
\<close>

definition process_packet :: "meshtastic_client \<Rightarrow> int \<Rightarrow> pydict \<Rightarrow> message option" where
  "process_packet self now packet =
     (if \<not> py_in (PStr ''decoded'') packet then None
      else
        let decoded = dict_get packet (PStr ''decoded'') PNone in
        case py_get decoded (PStr ''portnum'') PNone of
          Inl e \<Rightarrow> None
        | Inr portnum \<Rightarrow>
            let from_id = dict_get packet (PStr ''fromId'') (PStr ''Unknown'');
                from_num = dict_get packet (PStr ''from'') (PInt 0);
                to_id = dict_get packet (PStr ''toId'') (PStr ''Unknown'');
                from_name = resolve_from_name (interface self) from_id from_num;
                rx_time = dict_get packet (PStr ''rxTime'') (PInt now)
            in
              if portnum = PStr ''TEXT_MESSAGE_APP'' then
                (case py_get decoded (PStr ''text'') (PStr []) of
                   Inl e \<Rightarrow> None
                 | Inr text_v \<Rightarrow>
                     Some (DirectMessage from_name from_num to_id text_v rx_time packet))
              else if portnum = PStr ''TELEMETRY_APP'' then
                (case py_get decoded (PStr ''telemetry'') (PDict []) of
                   Inl e \<Rightarrow> None
                 | Inr telemetry_data \<Rightarrow>
                     (case py_get telemetry_data (PStr ''deviceMetrics'') PNone of
                        Inl e \<Rightarrow> None
                      | Inr device_metrics \<Rightarrow>
                          if truthy device_metrics then
                            (case device_metrics of
                               PDict dm \<Rightarrow>
                                 Some (Telemetry from_name from_num
                                   (dict_get dm (PStr ''batteryLevel'') PNone)
                                   (dict_get dm (PStr ''voltage'') PNone)
                                   (dict_get dm (PStr ''channelUtilization'') PNone)
                                   (dict_get dm (PStr ''airUtilTx'') PNone)
                                   (dict_get dm (PStr ''uptimeSeconds'') PNone)
                                   rx_time packet)
                             | _ \<Rightarrow> None)
                          else None))
              else if portnum = PStr ''NODEINFO_APP'' then None
              else if portnum = PStr ''POSITION_APP'' then None
              else None)"


text \<open>
  The kind discriminator of a packet, as lines 97 to 102 read it: there is none when
  the packet has no \<^verbatim>\<open>'decoded'\<close> entry or when that entry is not a dictionary.
\<close>

definition packet_kind :: "pydict \<Rightarrow> pyval option" where
  "packet_kind packet =
     (if py_in (PStr ''decoded'') packet then
        (case py_get (dict_get packet (PStr ''decoded'') PNone) (PStr ''portnum'') PNone of
           Inl e \<Rightarrow> None
         | Inr portnum \<Rightarrow> Some portnum)
      else None)"


text \<open>
  The device-metrics sub-object of a decoded telemetry payload, as lines 146 and 147
  read it, when it is a dictionary.
\<close>

definition device_metrics_of :: "pydict \<Rightarrow> pydict option" where
  "device_metrics_of decoded =
     (case py_get (PDict decoded) (PStr ''telemetry'') (PDict []) of
        Inr (PDict telemetry_data) \<Rightarrow>
          (case dict_find telemetry_data (PStr ''deviceMetrics'') of
             Some (PDict dm) \<Rightarrow> Some dm
           | _ \<Rightarrow> None)
      | _ \<Rightarrow> None)"

text \<open>The five metrics \<^verbatim>\<open>_process_packet\<close> copies into a telemetry message.\<close>

definition metric_keys :: "string list" where
  "metric_keys =
     [''batteryLevel'', ''voltage'', ''channelUtilization'', ''airUtilTx'', ''uptimeSeconds'']"

subsection \<open>Connecting, disconnecting, sending\<close>

text \<open>
  What \<^verbatim>\<open>connect\<close> meets when it creates the serial interface: the constructor raises,
  or it returns an interface and \<^verbatim>\<open>getMyNodeInfo\<close> raises, or both return.
\<close>

datatype connect_outcome =
    ConstructorRaises
  | NodeInfoRaises serial_interface
  | InterfaceReady serial_interface

definition connect :: "connect_outcome \<Rightarrow> meshtastic_client \<Rightarrow> bool \<times> meshtastic_client" where
  "connect outcome self =
     (case outcome of
        ConstructorRaises \<Rightarrow> (False, self\<lparr>connected := False\<rparr>)
      | NodeInfoRaises i \<Rightarrow> (False, self\<lparr>interface := Some i, connected := False\<rparr>)
      | InterfaceReady i \<Rightarrow> (True, self\<lparr>interface := Some i, connected := True\<rparr>))"

definition disconnect :: "meshtastic_client \<Rightarrow> meshtastic_client" where
  "disconnect self =
     (case interface self of
        Some i \<Rightarrow>
          if close_raises i then self
          else self\<lparr>interface := None, connected := False\<rparr>
      | None \<Rightarrow> self\<lparr>connected := False\<rparr>)"

definition is_connected :: "meshtastic_client \<Rightarrow> bool" where
  "is_connected self = (connected self \<and> interface self \<noteq> None)"

text \<open>
  \<^verbatim>\<open>send_text\<close>: the call of the interface's \<^verbatim>\<open>sendText\<close> is recorded whether it
  raises or not; a destination is passed on only when it is a non-empty string.
\<close>

definition send_text ::
  "meshtastic_client \<Rightarrow> string \<Rightarrow> string option \<Rightarrow> bool \<times> meshtastic_client" where
  "send_text self text_v destination =
     (if \<not> is_connected self then (False, self)
      else
        (case interface self of
           None \<Rightarrow> (False, self)
         | Some i \<Rightarrow>
             let dest = (case destination of
                           None \<Rightarrow> None
                         | Some d \<Rightarrow> if d \<noteq> [] then Some d else None);
                 i' = i\<lparr>sendText_calls := sendText_calls i @ [(text_v, dest)]\<rparr>
             in (\<not> sendText_raises i text_v, self\<lparr>interface := Some i'\<rparr>)))"

section \<open>The message handler\<close>

text \<open>
  The coroutines of the Discord client that the handler schedules.  The handler holds
  a reference \<^verbatim>\<open>loop\<close> to the event loop, if one has been set; the state also records
  which loops are closed (\<^verbatim>\<open>run_coroutine_threadsafe\<close> raises on a closed loop), what
  has been submitted to which loop, in order, and the error lines logged.
\<close>

datatype coroutine =
    send_direct_message message
  | send_telemetry message
  | send_error_notification string

record message_handler =
  loop :: "nat option"
  closed_loops :: "nat set"
  submitted :: "(nat \<times> coroutine) list"
  log :: "string list"

definition set_event_loop :: "nat \<Rightarrow> message_handler \<Rightarrow> message_handler" where
  "set_event_loop l self = self\<lparr>loop := Some l\<rparr>"

definition schedule_discord_task :: "coroutine \<Rightarrow> message_handler \<Rightarrow> message_handler" where
  "schedule_discord_task coro self =
     (case loop self of
        None \<Rightarrow> self\<lparr>log := log self @ [''Event loop not set, cannot schedule Discord task'']\<rparr>
      | Some l \<Rightarrow>
          if l \<in> closed_loops self
          then self\<lparr>log := log self @ [''Error scheduling Discord task'']\<rparr>
          else self\<lparr>submitted := submitted self @ [(l, coro)]\<rparr>)"

definition send_error_to_discord :: "string \<Rightarrow> message_handler \<Rightarrow> message_handler" where
  "send_error_to_discord error_message self =
     schedule_discord_task (send_error_notification error_message) self"

section \<open>The bridge and its reconnect loop\<close>

record config =
  meshtastic_device :: string
  discord_channel_id :: int
  reconnect_delay :: nat

text \<open>
  What the worker thread does that can be seen from outside, each with the time at
  which it happens.  Time is counted in seconds slept: \<^verbatim>\<open>time.sleep(n)\<close> moves the
  clock on by \<open>n\<close>, every other step takes no time, so the clock is a lower bound of
  the time that has really passed.
\<close>

datatype event =
    NewClient
  | Subscribe
  | CreateInterface bool
  | KeepAlive
  | ConnectionLost
  | Disconnect
  | Backoff nat

record bridge =
  meshtastic_client :: "meshtastic_client option"
  message_handler :: message_handler
  clock :: nat
  trace :: "(nat \<times> event) list"

definition emit :: "event \<Rightarrow> bridge \<Rightarrow> bridge" where
  "emit ev b = b\<lparr>trace := trace b @ [(clock b, ev)]\<rparr>"

definition sleep :: "nat \<Rightarrow> bridge \<Rightarrow> bridge" where
  "sleep n b = b\<lparr>clock := clock b + n\<rparr>"

text \<open>
  The flag \<^verbatim>\<open>self.running\<close> is written by the other thread, and so is the client's
  connection state once \<^verbatim>\<open>shutdown\<close> disconnects it; the worker only reads them.  One
  pass of the outer \<^verbatim>\<open>while\<close> gets what it reads as input: the flag at line 132, the
  outcome of creating the serial interface, the successive values of \<^verbatim>\<open>self.running\<close>
  and \<^verbatim>\<open>is_connected()\<close> in the keep-alive loop at line 149, the flag at line 152 and
  the flag at line 175.
\<close>

record iteration_env =
  running_at_head :: bool
  outcome :: connect_outcome
  keep_alive_reads :: "(bool \<times> bool) list"
  running_after_keep_alive :: bool
  running_at_backoff :: bool

text \<open>
  Lines 149 and 150.  The loop sleeps one second for each reading where both values
  are true and ends at the first other reading; when the readings run out the loop is
  still going round, which is \<open>None\<close>.
\<close>

fun keep_alive :: "(bool \<times> bool) list \<Rightarrow> bridge \<Rightarrow> bridge option" where
  "keep_alive [] b = None"
| "keep_alive ((running, conn) # rs) b =
     (if running \<and> conn then keep_alive rs (sleep 1 (emit KeepAlive b)) else Some b)"

text \<open>The \<^verbatim>\<open>finally\<close> clause, lines 170 to 172.\<close>

definition release :: "bridge \<Rightarrow> bridge" where
  "release b =
     (case meshtastic_client b of
        Some c \<Rightarrow> emit Disconnect (b\<lparr>meshtastic_client := Some (disconnect c)\<rparr>)
      | None \<Rightarrow> b)"

text \<open>Lines 155 to 165: the warning and the error notice.\<close>

definition connection_lost :: "bridge \<Rightarrow> bridge" where
  "connection_lost b =
     emit ConnectionLost
       (b\<lparr>message_handler :=
            send_error_to_discord
              ''Meshtastic device connection lost. Attempting to reconnect...''
              (message_handler b)\<rparr>)"

text \<open>Lines 174 to 176.\<close>

definition backoff :: "config \<Rightarrow> iteration_env \<Rightarrow> bridge \<Rightarrow> bridge" where
  "backoff cfg e b =
     (if running_at_backoff e
      then sleep (reconnect_delay cfg) (emit (Backoff (reconnect_delay cfg)) b)
      else b)"

text \<open>
  One pass of the body of the outer loop, lines 133 to 176.  The result says whether
  the pass left the loop by \<^verbatim>\<open>break\<close>.  None of the calls in the \<^verbatim>\<open>try\<close> block raises
  in this model (\<^verbatim>\<open>connect\<close> and \<^verbatim>\<open>send_error_to_discord\<close> catch their own
  exceptions), so the \<^verbatim>\<open>except\<close> clause has no branch of its own.  Lines 145 and 146
  register the callbacks with the Discord client again; that client is not part of the
  bridge state here.
\<close>

definition loop_body :: "config \<Rightarrow> iteration_env \<Rightarrow> bridge \<Rightarrow> (bool \<times> bridge) option" where
  "loop_body cfg e b =
     (let fresh = \<lparr>device_path = meshtastic_device cfg, interface = None, connected = False\<rparr>;
          b1 = emit Subscribe (emit NewClient b);
          (ok, c) = connect (outcome e) fresh;
          b2 = emit (CreateInterface ok) (b1\<lparr>meshtastic_client := Some c\<rparr>)
      in
        if ok then
          (case keep_alive (keep_alive_reads e) b2 of
             None \<Rightarrow> None
           | Some b3 \<Rightarrow>
               if \<not> running_after_keep_alive e then Some (True, release b3)
               else Some (False, backoff cfg e (release (connection_lost b3))))
        else Some (False, backoff cfg e (release (connection_lost b2))))"

text \<open>
  \<^verbatim>\<open>run_meshtastic\<close>, over the passes for which readings are given: the thread has left
  the loop, or it is back at the head of the loop with the readings used up, or it is
  still inside a keep-alive loop.
\<close>

datatype run_result = Exited bridge | AtLoopHead bridge | KeepingAlive

fun run_meshtastic :: "config \<Rightarrow> iteration_env list \<Rightarrow> bridge \<Rightarrow> run_result" where
  "run_meshtastic cfg [] b = AtLoopHead b"
| "run_meshtastic cfg (e # es) b =
     (if \<not> running_at_head e then Exited b
      else
        (case loop_body cfg e b of
           None \<Rightarrow> KeepingAlive
         | Some (left, b') \<Rightarrow> if left then Exited b' else run_meshtastic cfg es b'))"

text \<open>
  A pass ends in failure when the interface could not be created, or when the
  keep-alive loop ended and the flag was still set at line 152.  The flag is still set
  for the pass when it is set at lines 132 and 175 as well.
\<close>

definition ends_in_failure :: "iteration_env \<Rightarrow> bool" where
  "ends_in_failure e =
     (case outcome e of
        InterfaceReady i \<Rightarrow>
          (\<exists>r \<in> set (keep_alive_reads e). \<not> (fst r \<and> snd r)) \<and> running_after_keep_alive e
      | _ \<Rightarrow> True)"

definition flag_still_set :: "iteration_env \<Rightarrow> bool" where
  "flag_still_set e = (running_at_head e \<and> running_at_backoff e)"

text \<open>The times at which a serial interface was created, in order.\<close>

definition attempt_times :: "(nat \<times> event) list \<Rightarrow> nat list" where
  "attempt_times tr =
     map fst (filter (\<lambda>te. case snd te of CreateInterface ok \<Rightarrow> True | _ \<Rightarrow> False) tr)"

fun spaced :: "nat \<Rightarrow> nat list \<Rightarrow> bool" where
  "spaced d [] = True"
| "spaced d [t] = True"
| "spaced d (t # t' # ts) = (t + d \<le> t' \<and> spaced d (t' # ts))"

subsection \<open>The callbacks given to the Discord client\<close>

definition send_mesh_message :: "string \<Rightarrow> bridge \<Rightarrow> bool \<times> bridge" where
  "send_mesh_message message b =
     (case meshtastic_client b of
        Some c \<Rightarrow>
          if is_connected c then
            (let (r, c') = send_text c message None
             in (r, b\<lparr>meshtastic_client := Some c'\<rparr>))
          else (False, b)
      | None \<Rightarrow> (False, b))"

section \<open>The Discord commands\<close>

record discord_client =
  channel_id :: int
  send_mesh_message_callback :: "(string \<Rightarrow> bridge \<Rightarrow> bool \<times> bridge) option"

text \<open>What the \<^verbatim>\<open>send\<close> command answers in the channel; \<open>NoReply\<close> when it answers nothing.\<close>

datatype reply =
    NoReply
  | ConnectionNotAvailable
  | MessageTooLong nat
  | MessageSent string nat
  | SendFailed

text \<open>
  The \<^verbatim>\<open>send\<close> command, called with the id of the channel the command came from.  An
  element of \<open>message\<close> is one character as \<^verbatim>\<open>len\<close> counts them.
\<close>

definition send :: "discord_client \<Rightarrow> int \<Rightarrow> string \<Rightarrow> bridge \<Rightarrow> reply \<times> bridge" where
  "send self ctx_channel_id message b =
     (if ctx_channel_id \<noteq> channel_id self then (NoReply, b)
      else
        (case send_mesh_message_callback self of
           None \<Rightarrow> (ConnectionNotAvailable, b)
         | Some callback \<Rightarrow>
             if length message > 240 then (MessageTooLong (length message), b)
             else
               (let (success, b') = callback message b
                in if success then (MessageSent message (length message), b')
                   else (SendFailed, b'))))"

subsection \<open>Comparing Python values\<close>

text \<open>
  \<^verbatim>\<open>a == b\<close>: numbers by value, strings and \<^verbatim>\<open>None\<close> by identity of the value, lists
  element by element, dictionaries when they have the same keys with equal values;
  values of different kinds are not equal.
\<close>

fun py_eq :: "pyval \<Rightarrow> pyval \<Rightarrow> bool"
  and list_eq :: "pyval list \<Rightarrow> pyval list \<Rightarrow> bool"
  and dict_le :: "pydict \<Rightarrow> pydict \<Rightarrow> bool"
  and entry_eq :: "pyval \<Rightarrow> pyval \<Rightarrow> pydict \<Rightarrow> bool"
where
  "py_eq (PList xs) (PList ys) = list_eq xs ys"
| "py_eq (PDict d) (PDict e) = (length d = length e \<and> dict_le d e)"
| "py_eq a b = key_eq a b"
| "list_eq [] [] = True"
| "list_eq (x # xs) (y # ys) = (py_eq x y \<and> list_eq xs ys)"
| "list_eq xs ys = False"
| "dict_le [] e = True"
| "dict_le ((k, v) # d) e = (entry_eq k v e \<and> dict_le d e)"
| "entry_eq k v [] = False"
| "entry_eq k v ((k', v') # e) = (if key_eq k' k then py_eq v v' else entry_eq k v e)"

text \<open>Strings are ordered by code point; a proper prefix comes first.\<close>

fun str_lt :: "string \<Rightarrow> string \<Rightarrow> bool" where
  "str_lt [] [] = False"
| "str_lt [] (d # t) = True"
| "str_lt (c # s) [] = False"
| "str_lt (c # s) (d # t) = ((of_char c :: nat) < of_char d \<or> (c = d \<and> str_lt s t))"

text \<open>
  \<^verbatim>\<open>a < b\<close>: defined between two numbers, between two strings and between two lists
  (the first pair of unequal elements decides, else the shorter list is smaller); every
  other pair, and so every pair with \<^verbatim>\<open>None\<close> or a dictionary, raises \<^verbatim>\<open>TypeError\<close>.
  A float that is not a number has no value \<open>r\<close> and is not among the values here.
\<close>

fun py_lt :: "pyval \<Rightarrow> pyval \<Rightarrow> py_error + bool"
  and list_lt :: "pyval list \<Rightarrow> pyval list \<Rightarrow> py_error + bool"
where
  "py_lt (PStr s) (PStr t) = Inr (str_lt s t)"
| "py_lt (PList xs) (PList ys) = list_lt xs ys"
| "py_lt a b =
     (case num_of a of
        Some x \<Rightarrow> (case num_of b of Some y \<Rightarrow> Inr (x < y) | None \<Rightarrow> Inl TypeError)
      | None \<Rightarrow> Inl TypeError)"
| "list_lt [] [] = Inr False"
| "list_lt [] (y # ys) = Inr True"
| "list_lt (x # xs) [] = Inr False"
| "list_lt (x # xs) (y # ys) = (if py_eq x y then list_lt xs ys else py_lt x y)"



subsection \<open>Sorting\<close>












section \<open>Example data\<close>

abbreviation (input) no_link :: meshtastic_client where
  "no_link \<equiv> \<lparr>device_path = ''/dev/ttyACM0'', interface = None, connected = False\<rparr>"

abbreviation (input) link_with :: "pydict \<Rightarrow> serial_interface" where
  "link_with ns \<equiv>
     \<lparr>nodes = ns, sendText_calls = [], sendText_raises = (\<lambda>t. False), close_raises = False\<rparr>"

abbreviation (input) linked :: "pydict \<Rightarrow> meshtastic_client" where
  "linked ns \<equiv>
     \<lparr>device_path = ''/dev/ttyACM0'', interface = Some (link_with ns), connected = True\<rparr>"

abbreviation (input) text_packet :: pydict where
  "text_packet \<equiv>
     [(PStr ''from'', PInt 7), (PStr ''fromId'', PStr ''!a1b2''),
      (PStr ''decoded'',
       PDict [(PStr ''portnum'', PStr ''TEXT_MESSAGE_APP''), (PStr ''text'', PStr ''hello'')])]"

abbreviation (input) alice_by_id :: pydict where
  "alice_by_id \<equiv>
     [(PStr ''!a1b2'',
       PDict [(PStr ''user'',
               PDict [(PStr ''longName'', PStr ''Alice''), (PStr ''shortName'', PStr ''AL'')])])]"



abbreviation (input) example_config :: config where
  "example_config \<equiv>
     \<lparr>meshtastic_device = ''/dev/ttyACM0'', discord_channel_id = 42, reconnect_delay = 5\<rparr>"

abbreviation (input) idle_bridge :: bridge where
  "idle_bridge \<equiv>
     \<lparr>meshtastic_client = None,
      message_handler = \<lparr>loop = Some 0, closed_loops = {}, submitted = [], log = []\<rparr>,
      clock = 0, trace = []\<rparr>"

abbreviation (input) failed_connect :: iteration_env where
  "failed_connect \<equiv>
     \<lparr>running_at_head = True, outcome = ConstructorRaises, keep_alive_reads = [],
      running_after_keep_alive = True, running_at_backoff = True\<rparr>"

abbreviation (input) lost_connection :: iteration_env where
  "lost_connection \<equiv>
     \<lparr>running_at_head = True, outcome = InterfaceReady (link_with []),
      keep_alive_reads = [(True, True), (True, False)],
      running_after_keep_alive = True, running_at_backoff = True\<rparr>"

section \<open>Facts about dictionaries\<close>

lemmas eval_defs = process_packet_def Let_def py_in_def dict_get_def py_get_def key_eq_def
  resolve_from_name_def lookup_node_def node_name_def py_or_def

lemma key_eq_refl: "key_eq k k"
  by (simp add: key_eq_def split: option.splits)

lemma nonempty_has_key: "d \<noteq> [] \<Longrightarrow> \<exists>k v. (k, v) \<in> set d \<and> py_in k d"
  by (cases d) (auto simp: py_in_def key_eq_refl)

lemma py_in_nonempty: "py_in k d \<Longrightarrow> d \<noteq> []"
  by (auto simp: py_in_def)

lemma py_get_dict_str: "py_get (PDict d) (PStr k) dflt = Inr (dict_get d (PStr k) dflt)"
  by (simp add: py_get_def)

section \<open>The packet classifier\<close>

text \<open>The telemetry branch, lines 146 to 164, in terms of the device-metrics dictionary.\<close>

lemma telemetry_branch:
  "(case py_get (PDict decoded) (PStr ''telemetry'') (PDict []) of
      Inl e \<Rightarrow> None
    | Inr telemetry_data \<Rightarrow>
        (case py_get telemetry_data (PStr ''deviceMetrics'') PNone of
           Inl e \<Rightarrow> None
         | Inr device_metrics \<Rightarrow>
             if truthy device_metrics then
               (case device_metrics of PDict dm \<Rightarrow> Some (f dm) | _ \<Rightarrow> None)
             else None))
   = (case device_metrics_of decoded of
        None \<Rightarrow> None
      | Some dm \<Rightarrow> if dm = [] then None else Some (f dm))"
proof (cases "dict_get decoded (PStr ''telemetry'') (PDict [])")
  case (PDict td)
  show ?thesis
  proof (cases "dict_find td (PStr ''deviceMetrics'')")
    case None
    then show ?thesis
      using PDict by (simp add: device_metrics_of_def py_get_dict_str dict_get_def)
  next
    case (Some v)
    then show ?thesis
      using PDict by (cases v) (simp_all add: device_metrics_of_def py_get_dict_str dict_get_def)
  qed
qed (simp_all add: device_metrics_of_def py_get_dict_str py_get_def)

lemma process_packet_telemetry:
  assumes "dict_find packet (PStr ''decoded'') = Some (PDict decoded)"
    and "dict_get decoded (PStr ''portnum'') PNone = PStr ''TELEMETRY_APP''"
  shows "process_packet self now packet =
     (case device_metrics_of decoded of
        None \<Rightarrow> None
      | Some dm \<Rightarrow>
          if dm = [] then None
          else Some (Telemetry
            (resolve_from_name (interface self)
               (dict_get packet (PStr ''fromId'') (PStr ''Unknown''))
               (dict_get packet (PStr ''from'') (PInt 0)))
            (dict_get packet (PStr ''from'') (PInt 0))
            (dict_get dm (PStr ''batteryLevel'') PNone)
            (dict_get dm (PStr ''voltage'') PNone)
            (dict_get dm (PStr ''channelUtilization'') PNone)
            (dict_get dm (PStr ''airUtilTx'') PNone)
            (dict_get dm (PStr ''uptimeSeconds'') PNone)
            (dict_get packet (PStr ''rxTime'') (PInt now))
            packet))"
proof -
  have a: "py_in (PStr ''decoded'') packet"
    and b: "dict_get packet (PStr ''decoded'') PNone = PDict decoded"
    using assms(1) by (simp_all add: py_in_def dict_get_def)
  show ?thesis
    unfolding process_packet_def Let_def
    by (simp only: a b py_get_dict_str[of decoded "''portnum''"] assms(2) telemetry_branch
        not_True_eq_False if_False if_True sum.case pyval.inject list.inject char.inject simp_thms)
qed

lemma metrics_present_iff:
  assumes "\<forall>kv \<in> set dm. fst kv \<in> PStr ` set metric_keys"
  shows "dm \<noteq> [] \<longleftrightarrow> (\<exists>k \<in> set metric_keys. py_in (PStr k) dm)"
proof
  assume "dm \<noteq> []"
  then obtain k v where kv: "(k, v) \<in> set dm" and "py_in k dm"
    using nonempty_has_key by blast
  moreover from kv assms have "k \<in> PStr ` set metric_keys" by fastforce
  ultimately show "\<exists>k \<in> set metric_keys. py_in (PStr k) dm" by blast
next
  assume "\<exists>k \<in> set metric_keys. py_in (PStr k) dm"
  then show "dm \<noteq> []" using py_in_nonempty by blast
qed



lemma process_packet_from_id:
  "process_packet self now packet = Some m \<Longrightarrow>
   m_from_id m = resolve_from_name (interface self)
       (dict_get packet (PStr ''fromId'') (PStr ''Unknown''))
       (dict_get packet (PStr ''from'') (PInt 0))"
  by (auto simp: process_packet_def Let_def split: if_splits sum.splits pyval.splits)

text \<open>
  C1, as the code has it.  For a packet of kind \<^verbatim>\<open>TELEMETRY_APP\<close>, a telemetry message is
  produced exactly when the device-metrics sub-object is a non-empty dictionary; each
  of the five metric fields of the message is the packet's value for that metric, or
  \<^verbatim>\<open>None\<close> when the sub-object has no such entry.  When the sub-object holds nothing but
  entries for the five metrics, being non-empty is the same as having at least one of
  the five.
\<close>

theorem telemetry_classification:
  assumes "dict_find packet (PStr ''decoded'') = Some (PDict decoded)"
    and "dict_get decoded (PStr ''portnum'') PNone = PStr ''TELEMETRY_APP''"
  shows "process_packet self now packet =
     (case device_metrics_of decoded of
        None \<Rightarrow> None
      | Some dm \<Rightarrow>
          if dm = [] then None
          else Some (Telemetry
            (resolve_from_name (interface self)
               (dict_get packet (PStr ''fromId'') (PStr ''Unknown''))
               (dict_get packet (PStr ''from'') (PInt 0)))
            (dict_get packet (PStr ''from'') (PInt 0))
            (dict_get dm (PStr ''batteryLevel'') PNone)
            (dict_get dm (PStr ''voltage'') PNone)
            (dict_get dm (PStr ''channelUtilization'') PNone)
            (dict_get dm (PStr ''airUtilTx'') PNone)
            (dict_get dm (PStr ''uptimeSeconds'') PNone)
            (dict_get packet (PStr ''rxTime'') (PInt now))
            packet))
    \<and> (\<forall>dm. device_metrics_of decoded = Some dm \<longrightarrow>
           (\<forall>kv \<in> set dm. fst kv \<in> PStr ` set metric_keys) \<longrightarrow>
           (dm \<noteq> [] \<longleftrightarrow> (\<exists>k \<in> set metric_keys. py_in (PStr k) dm)))"
  using process_packet_telemetry[OF assms] metrics_present_iff by blast

theorem telemetry_classification_witness:
  "dict_find
     [(PStr ''fromId'', PStr ''!a1b2''), (PStr ''rxTime'', PInt 1700000000),
      (PStr ''decoded'',
       PDict [(PStr ''portnum'', PStr ''TELEMETRY_APP''),
              (PStr ''telemetry'',
               PDict [(PStr ''deviceMetrics'',
                       PDict [(PStr ''batteryLevel'', PInt 87), (PStr ''voltage'', PFloat 4.1)])])])]
     (PStr ''decoded'')
   = Some (PDict [(PStr ''portnum'', PStr ''TELEMETRY_APP''),
              (PStr ''telemetry'',
               PDict [(PStr ''deviceMetrics'',
                       PDict [(PStr ''batteryLevel'', PInt 87), (PStr ''voltage'', PFloat 4.1)])])])
   \<and> process_packet no_link 5
     [(PStr ''fromId'', PStr ''!a1b2''), (PStr ''rxTime'', PInt 1700000000),
      (PStr ''decoded'',
       PDict [(PStr ''portnum'', PStr ''TELEMETRY_APP''),
              (PStr ''telemetry'',
               PDict [(PStr ''deviceMetrics'',
                       PDict [(PStr ''batteryLevel'', PInt 87), (PStr ''voltage'', PFloat 4.1)])])])]
   = Some (Telemetry (PStr ''!a1b2'') (PInt 0) (PInt 87) (PFloat 4.1) PNone PNone PNone
       (PInt 1700000000)
       [(PStr ''fromId'', PStr ''!a1b2''), (PStr ''rxTime'', PInt 1700000000),
        (PStr ''decoded'',
         PDict [(PStr ''portnum'', PStr ''TELEMETRY_APP''),
                (PStr ''telemetry'',
                 PDict [(PStr ''deviceMetrics'',
                         PDict [(PStr ''batteryLevel'', PInt 87), (PStr ''voltage'', PFloat 4.1)])])])])
   \<and> (\<exists>k \<in> set metric_keys.
         py_in (PStr k) [(PStr ''batteryLevel'', PInt 87), (PStr ''voltage'', PFloat 4.1)])"
proof -
  let ?dm = "[(PStr ''batteryLevel'', PInt 87), (PStr ''voltage'', PFloat 4.1)]"
  let ?decoded = "[(PStr ''portnum'', PStr ''TELEMETRY_APP''),
                   (PStr ''telemetry'', PDict [(PStr ''deviceMetrics'', PDict ?dm)])]"
  let ?packet = "[(PStr ''fromId'', PStr ''!a1b2''), (PStr ''rxTime'', PInt 1700000000),
                  (PStr ''decoded'', PDict ?decoded)]"
  have h1: "dict_find ?packet (PStr ''decoded'') = Some (PDict ?decoded)"
    by (simp add: key_eq_def)
  have h2: "dict_get ?decoded (PStr ''portnum'') PNone = PStr ''TELEMETRY_APP''"
    by (simp add: dict_get_def key_eq_def)
  have h3: "device_metrics_of ?decoded = Some ?dm"
    by (simp add: device_metrics_of_def py_get_def dict_get_def key_eq_def)
  have h4: "\<forall>kv \<in> set ?dm. fst kv \<in> PStr ` set metric_keys"
    by (simp add: metric_keys_def)
  note inst = telemetry_classification[OF h1 h2, of no_link 5]
  have "process_packet no_link 5 ?packet =
      Some (Telemetry (PStr ''!a1b2'') (PInt 0) (PInt 87) (PFloat 4.1) PNone PNone PNone
       (PInt 1700000000) ?packet)"
    using conjunct1[OF inst]
    by (simp add: h3 dict_get_def key_eq_def resolve_from_name_def)
  moreover have "\<exists>k \<in> set metric_keys. py_in (PStr k) ?dm"
    using conjunct2[OF inst] h3 h4 by blast
  ultimately show ?thesis using h1 by blast
qed

theorem telemetry_unknown_field_counterexample:
  "process_packet no_link 0
     [(PStr ''fromId'', PStr ''!a1b2''), (PStr ''rxTime'', PInt 1700000000),
      (PStr ''decoded'',
       PDict [(PStr ''portnum'', PStr ''TELEMETRY_APP''),
              (PStr ''telemetry'',
               PDict [(PStr ''deviceMetrics'', PDict [(PStr ''temperature'', PFloat 21.5)])])])]
   = Some (Telemetry (PStr ''!a1b2'') (PInt 0) PNone PNone PNone PNone PNone (PInt 1700000000)
       [(PStr ''fromId'', PStr ''!a1b2''), (PStr ''rxTime'', PInt 1700000000),
        (PStr ''decoded'',
         PDict [(PStr ''portnum'', PStr ''TELEMETRY_APP''),
                (PStr ''telemetry'',
                 PDict [(PStr ''deviceMetrics'', PDict [(PStr ''temperature'', PFloat 21.5)])])])])
   \<and> \<not> py_in (PStr ''batteryLevel'') [(PStr ''temperature'', PFloat 21.5)]
   \<and> \<not> py_in (PStr ''voltage'') [(PStr ''temperature'', PFloat 21.5)]
   \<and> \<not> py_in (PStr ''channelUtilization'') [(PStr ''temperature'', PFloat 21.5)]
   \<and> \<not> py_in (PStr ''airUtilTx'') [(PStr ''temperature'', PFloat 21.5)]
   \<and> \<not> py_in (PStr ''uptimeSeconds'') [(PStr ''temperature'', PFloat 21.5)]"
  by (simp add: eval_defs)






text \<open>
  C5.  A packet whose kind is neither \<^verbatim>\<open>TEXT_MESSAGE_APP\<close> nor \<^verbatim>\<open>TELEMETRY_APP\<close> is
  classified as no message.  This covers a packet without a decoded payload (it has no
  kind), node-info and position updates, and any other kind.
\<close>

theorem other_kinds_yield_nothing:
  "packet_kind packet \<noteq> Some (PStr ''TEXT_MESSAGE_APP'') \<Longrightarrow>
   packet_kind packet \<noteq> Some (PStr ''TELEMETRY_APP'') \<Longrightarrow>
   process_packet self now packet = None"
  by (auto simp: packet_kind_def process_packet_def Let_def split: sum.splits if_splits)

theorem other_kinds_yield_nothing_witness:
  "packet_kind [(PStr ''fromId'', PStr ''!a1b2'')] = None
   \<and> process_packet no_link 0 [(PStr ''fromId'', PStr ''!a1b2'')] = None
   \<and> packet_kind [(PStr ''decoded'', PDict [(PStr ''portnum'', PStr ''NODEINFO_APP'')])]
       = Some (PStr ''NODEINFO_APP'')
   \<and> process_packet (linked alice_by_id) 0
       [(PStr ''decoded'', PDict [(PStr ''portnum'', PStr ''NODEINFO_APP'')])] = None
   \<and> packet_kind [(PStr ''decoded'', PDict [(PStr ''portnum'', PStr ''POSITION_APP'')])]
       = Some (PStr ''POSITION_APP'')
   \<and> process_packet (linked alice_by_id) 0
       [(PStr ''decoded'', PDict [(PStr ''portnum'', PStr ''POSITION_APP'')])] = None
   \<and> packet_kind [(PStr ''decoded'', PDict [(PStr ''portnum'', PStr ''ADMIN_APP'')])]
       = Some (PStr ''ADMIN_APP'')
   \<and> process_packet (linked alice_by_id) 0
       [(PStr ''decoded'', PDict [(PStr ''portnum'', PStr ''ADMIN_APP'')])] = None"
proof -
  have k1: "packet_kind [(PStr ''fromId'', PStr ''!a1b2'')] = None"
    by (simp add: packet_kind_def py_in_def key_eq_def)
  have k2: "packet_kind [(PStr ''decoded'', PDict [(PStr ''portnum'', PStr ''NODEINFO_APP'')])]
       = Some (PStr ''NODEINFO_APP'')"
    by (simp add: packet_kind_def py_in_def py_get_def dict_get_def key_eq_def)
  have k3: "packet_kind [(PStr ''decoded'', PDict [(PStr ''portnum'', PStr ''POSITION_APP'')])]
       = Some (PStr ''POSITION_APP'')"
    by (simp add: packet_kind_def py_in_def py_get_def dict_get_def key_eq_def)
  have k4: "packet_kind [(PStr ''decoded'', PDict [(PStr ''portnum'', PStr ''ADMIN_APP'')])]
       = Some (PStr ''ADMIN_APP'')"
    by (simp add: packet_kind_def py_in_def py_get_def dict_get_def key_eq_def)
  have "process_packet no_link 0 [(PStr ''fromId'', PStr ''!a1b2'')] = None"
    by (rule other_kinds_yield_nothing) (simp_all add: k1)
  moreover have "process_packet (linked alice_by_id) 0
       [(PStr ''decoded'', PDict [(PStr ''portnum'', PStr ''NODEINFO_APP'')])] = None"
    by (rule other_kinds_yield_nothing) (simp_all add: k2)
  moreover have "process_packet (linked alice_by_id) 0
       [(PStr ''decoded'', PDict [(PStr ''portnum'', PStr ''POSITION_APP'')])] = None"
    by (rule other_kinds_yield_nothing) (simp_all add: k3)
  moreover have "process_packet (linked alice_by_id) 0
       [(PStr ''decoded'', PDict [(PStr ''portnum'', PStr ''ADMIN_APP'')])] = None"
    by (rule other_kinds_yield_nothing) (simp_all add: k4)
  ultimately show ?thesis using k1 k2 k3 k4 by blast
qed

text \<open>
  C10.  A packet of kind \<^verbatim>\<open>TEXT_MESSAGE_APP\<close> whose decoded payload has no \<^verbatim>\<open>'text'\<close>
  entry is classified as a direct message whose text is the empty string.
\<close>

theorem text_message_without_text:
  assumes "dict_find packet (PStr ''decoded'') = Some (PDict decoded)"
    and "dict_get decoded (PStr ''portnum'') PNone = PStr ''TEXT_MESSAGE_APP''"
    and "\<not> py_in (PStr ''text'') decoded"
  shows "process_packet self now packet =
     Some (DirectMessage
       (resolve_from_name (interface self)
          (dict_get packet (PStr ''fromId'') (PStr ''Unknown''))
          (dict_get packet (PStr ''from'') (PInt 0)))
       (dict_get packet (PStr ''from'') (PInt 0))
       (dict_get packet (PStr ''toId'') (PStr ''Unknown''))
       (PStr [])
       (dict_get packet (PStr ''rxTime'') (PInt now))
       packet)"
  using assms
  by (simp add: process_packet_def Let_def py_in_def py_get_def dict_get_def)

theorem text_message_without_text_witness:
  "dict_find
     [(PStr ''fromId'', PStr ''!a1b2''), (PStr ''rxTime'', PInt 1700000000),
      (PStr ''decoded'', PDict [(PStr ''portnum'', PStr ''TEXT_MESSAGE_APP'')])]
     (PStr ''decoded'')
   = Some (PDict [(PStr ''portnum'', PStr ''TEXT_MESSAGE_APP'')])
   \<and> \<not> py_in (PStr ''text'') [(PStr ''portnum'', PStr ''TEXT_MESSAGE_APP'')]
   \<and> process_packet no_link 0
     [(PStr ''fromId'', PStr ''!a1b2''), (PStr ''rxTime'', PInt 1700000000),
      (PStr ''decoded'', PDict [(PStr ''portnum'', PStr ''TEXT_MESSAGE_APP'')])]
   = Some (DirectMessage (PStr ''!a1b2'') (PInt 0) (PStr ''Unknown'') (PStr [])
       (PInt 1700000000)
       [(PStr ''fromId'', PStr ''!a1b2''), (PStr ''rxTime'', PInt 1700000000),
        (PStr ''decoded'', PDict [(PStr ''portnum'', PStr ''TEXT_MESSAGE_APP'')])])"
proof -
  let ?decoded = "[(PStr ''portnum'', PStr ''TEXT_MESSAGE_APP'')]"
  let ?packet = "[(PStr ''fromId'', PStr ''!a1b2''), (PStr ''rxTime'', PInt 1700000000),
      (PStr ''decoded'', PDict ?decoded)]"
  have h1: "dict_find ?packet (PStr ''decoded'') = Some (PDict ?decoded)"
    by (simp add: key_eq_def)
  have h2: "dict_get ?decoded (PStr ''portnum'') PNone = PStr ''TEXT_MESSAGE_APP''"
    by (simp add: dict_get_def key_eq_def)
  have h3: "\<not> py_in (PStr ''text'') ?decoded"
    by (simp add: py_in_def key_eq_def)
  have "process_packet no_link 0 ?packet =
    Some (DirectMessage (PStr ''!a1b2'') (PInt 0) (PStr ''Unknown'') (PStr [])
       (PInt 1700000000) ?packet)"
    using text_message_without_text[OF h1 h2 h3, of no_link 0]
    by (simp add: dict_get_def key_eq_def resolve_from_name_def)
  then show ?thesis using h1 h3 by blast
qed

section \<open>The sender's display name\<close>

lemma resolve_no_lookup:
  "iface = None \<or> \<not> truthy from_num \<Longrightarrow> resolve_from_name iface from_id from_num = from_id"
  by (auto simp: resolve_from_name_def split: option.splits)

lemma resolve_lookup_raises:
  "lookup_node (nodes i) from_id from_num = Inl e \<Longrightarrow>
   resolve_from_name (Some i) from_id from_num = from_id"
  by (simp add: resolve_from_name_def)

lemma lookup_node_absent:
  "dict_find ns from_id = None \<Longrightarrow> dict_find ns from_num = None \<Longrightarrow>
   lookup_node ns from_id from_num = Inr PNone \<or> (\<exists>e. lookup_node ns from_id from_num = Inl e)"
  by (simp add: lookup_node_def py_get_def dict_get_def)

lemma resolve_absent:
  assumes "dict_find (nodes i) from_id = None" and "dict_find (nodes i) from_num = None"
  shows "resolve_from_name (Some i) from_id from_num = from_id"
  using lookup_node_absent[OF assms] by (auto simp: resolve_from_name_def)

lemma resolve_by_id:
  "truthy from_num \<Longrightarrow> hashable from_id \<Longrightarrow> dict_find (nodes i) from_id = Some node \<Longrightarrow>
   truthy node \<Longrightarrow> resolve_from_name (Some i) from_id from_num = node_name node from_id"
  by (simp add: resolve_from_name_def lookup_node_def py_get_def dict_get_def)

lemma resolve_by_num:
  assumes "truthy from_num" and "hashable from_id" and "hashable from_num"
    and "\<forall>n. dict_find (nodes i) from_id = Some n \<longrightarrow> \<not> truthy n"
    and "dict_find (nodes i) from_num = Some node" and "truthy node"
  shows "resolve_from_name (Some i) from_id from_num = node_name node from_id"
  using assms
  by (cases "dict_find (nodes i) from_id")
     (simp_all add: resolve_from_name_def lookup_node_def py_get_def dict_get_def)

lemma node_name_user:
  "dict_find nd (PStr ''user'') = Some (PDict u) \<Longrightarrow>
   node_name (PDict nd) from_id =
     (if truthy (dict_get u (PStr ''longName'') PNone) then dict_get u (PStr ''longName'') PNone
      else if truthy (dict_get u (PStr ''shortName'') PNone)
           then dict_get u (PStr ''shortName'') PNone
      else from_id)"
  by (simp add: node_name_def py_in_def py_get_def dict_get_def py_or_def)

lemma node_name_no_user:
  "dict_find nd (PStr ''user'') = None \<Longrightarrow> node_name (PDict nd) from_id = from_id"
  by (simp add: node_name_def py_in_def)

lemma lookup_node_no_entry:
  assumes "\<forall>n. dict_find ns from_id = Some n \<longrightarrow> \<not> truthy n"
    and "\<forall>n. dict_find ns from_num = Some n \<longrightarrow> \<not> truthy n"
  shows "(\<exists>node. lookup_node ns from_id from_num = Inr node \<and> \<not> truthy node)
       \<or> (\<exists>e. lookup_node ns from_id from_num = Inl e)"
proof (cases "hashable from_id")
  case False
  then show ?thesis by (simp add: lookup_node_def py_get_def)
next
  case True
  have by_id: "\<not> truthy (dict_get ns from_id PNone)"
    using assms(1) by (cases "dict_find ns from_id") (simp_all add: dict_get_def)
  have by_num: "\<not> truthy (dict_get ns from_num PNone)"
    using assms(2) by (cases "dict_find ns from_num") (simp_all add: dict_get_def)
  show ?thesis
    using True by_id by_num by (cases "hashable from_num") (simp_all add: lookup_node_def py_get_def)
qed

lemma resolve_no_entry:
  assumes "\<forall>n. dict_find (nodes i) from_id = Some n \<longrightarrow> \<not> truthy n"
    and "\<forall>n. dict_find (nodes i) from_num = Some n \<longrightarrow> \<not> truthy n"
  shows "resolve_from_name (Some i) from_id from_num = from_id"
  using lookup_node_no_entry[OF assms] by (auto simp: resolve_from_name_def)

lemma resolve_unhashable_id:
  "\<not> hashable from_id \<Longrightarrow> resolve_from_name (Some i) from_id from_num = from_id"
  by (simp add: resolve_from_name_def lookup_node_def py_get_def)

lemma resolve_unhashable_num:
  assumes "hashable from_id" and "\<forall>n. dict_find (nodes i) from_id = Some n \<longrightarrow> \<not> truthy n"
    and "\<not> hashable from_num"
  shows "resolve_from_name (Some i) from_id from_num = from_id"
proof -
  have "\<not> truthy (dict_get (nodes i) from_id PNone)"
    using assms(2) by (cases "dict_find (nodes i) from_id") (simp_all add: dict_get_def)
  then show ?thesis
    using assms(1,3) by (simp add: resolve_from_name_def lookup_node_def py_get_def)
qed

lemma node_name_user_not_dict:
  "dict_find nd (PStr ''user'') = Some v \<Longrightarrow> \<forall>u. v \<noteq> PDict u \<Longrightarrow>
   node_name (PDict nd) from_id = from_id"
  by (cases v) (simp_all add: node_name_def py_in_def py_get_def dict_get_def)

lemma node_name_not_dict: "\<forall>nd. node \<noteq> PDict nd \<Longrightarrow> node_name node from_id = from_id"
  by (cases node) (simp_all add: node_name_def)

text \<open>
  C9, as the code has it.  The name in a message is the sender id of the packet
  (\<^verbatim>\<open>'Unknown'\<close> when it has none) unless the client has an interface, the numeric
  sender id is not zero and the node table has an entry that is true under the sender
  id string or, failing that, under the numeric id.  Such an entry that is a dictionary
  with a \<^verbatim>\<open>'user'\<close> dictionary gives the long name if that is not empty, else the short
  name if that is not empty, else the sender id.  In every other case the name is the
  sender id: no interface, a numeric id that is missing or zero, a lookup that raises
  (a key that cannot be hashed), no entry or only empty entries under both keys, an
  entry that is not a dictionary, an entry without \<^verbatim>\<open>'user'\<close>, and a \<^verbatim>\<open>'user'\<close> value that
  is not a dictionary.
\<close>

theorem sender_name_resolution:
  assumes "process_packet self now packet = Some m"
    and "raw_id = dict_get packet (PStr ''fromId'') (PStr ''Unknown'')"
    and "num = dict_get packet (PStr ''from'') (PInt 0)"
  shows
    "(interface self = None \<or> \<not> truthy num \<longrightarrow> m_from_id m = raw_id)
   \<and> (\<forall>i. interface self = Some i \<and> truthy num \<longrightarrow>
         (\<forall>e. lookup_node (nodes i) raw_id num = Inl e \<longrightarrow> m_from_id m = raw_id)
       \<and> (dict_find (nodes i) raw_id = None \<and> dict_find (nodes i) num = None \<longrightarrow>
            m_from_id m = raw_id)
       \<and> (\<forall>node. hashable raw_id \<and> dict_find (nodes i) raw_id = Some node \<and> truthy node \<longrightarrow>
            m_from_id m = node_name node raw_id)
       \<and> (\<forall>node. hashable raw_id \<and> hashable num
              \<and> (\<forall>n. dict_find (nodes i) raw_id = Some n \<longrightarrow> \<not> truthy n)
              \<and> dict_find (nodes i) num = Some node \<and> truthy node \<longrightarrow>
            m_from_id m = node_name node raw_id)
       \<and> (\<not> hashable raw_id \<longrightarrow> m_from_id m = raw_id)
       \<and> (hashable raw_id \<and> (\<forall>n. dict_find (nodes i) raw_id = Some n \<longrightarrow> \<not> truthy n)
              \<and> \<not> hashable num \<longrightarrow>
            m_from_id m = raw_id)
       \<and> ((\<forall>n. dict_find (nodes i) raw_id = Some n \<longrightarrow> \<not> truthy n)
              \<and> (\<forall>n. dict_find (nodes i) num = Some n \<longrightarrow> \<not> truthy n) \<longrightarrow>
            m_from_id m = raw_id))
   \<and> (\<forall>nd u. dict_find nd (PStr ''user'') = Some (PDict u) \<longrightarrow>
         node_name (PDict nd) raw_id =
           (if truthy (dict_get u (PStr ''longName'') PNone)
            then dict_get u (PStr ''longName'') PNone
            else if truthy (dict_get u (PStr ''shortName'') PNone)
                 then dict_get u (PStr ''shortName'') PNone
            else raw_id))
   \<and> (\<forall>nd. dict_find nd (PStr ''user'') = None \<longrightarrow> node_name (PDict nd) raw_id = raw_id)
   \<and> (\<forall>nd v. dict_find nd (PStr ''user'') = Some v \<and> (\<forall>u. v \<noteq> PDict u) \<longrightarrow>
         node_name (PDict nd) raw_id = raw_id)
   \<and> (\<forall>node. (\<forall>nd. node \<noteq> PDict nd) \<longrightarrow> node_name node raw_id = raw_id)"
proof -
  have name: "m_from_id m = resolve_from_name (interface self) raw_id num"
    using process_packet_from_id[OF assms(1)] assms(2,3) by simp
  have 1: "interface self = None \<or> \<not> truthy num \<longrightarrow> m_from_id m = raw_id"
    using name resolve_no_lookup by metis
  have 2: "\<forall>i. interface self = Some i \<and> truthy num \<longrightarrow>
         (\<forall>e. lookup_node (nodes i) raw_id num = Inl e \<longrightarrow> m_from_id m = raw_id)
       \<and> (dict_find (nodes i) raw_id = None \<and> dict_find (nodes i) num = None \<longrightarrow>
            m_from_id m = raw_id)
       \<and> (\<forall>node. hashable raw_id \<and> dict_find (nodes i) raw_id = Some node \<and> truthy node \<longrightarrow>
            m_from_id m = node_name node raw_id)
       \<and> (\<forall>node. hashable raw_id \<and> hashable num
              \<and> (\<forall>n. dict_find (nodes i) raw_id = Some n \<longrightarrow> \<not> truthy n)
              \<and> dict_find (nodes i) num = Some node \<and> truthy node \<longrightarrow>
            m_from_id m = node_name node raw_id)
       \<and> (\<not> hashable raw_id \<longrightarrow> m_from_id m = raw_id)
       \<and> (hashable raw_id \<and> (\<forall>n. dict_find (nodes i) raw_id = Some n \<longrightarrow> \<not> truthy n)
              \<and> \<not> hashable num \<longrightarrow>
            m_from_id m = raw_id)
       \<and> ((\<forall>n. dict_find (nodes i) raw_id = Some n \<longrightarrow> \<not> truthy n)
              \<and> (\<forall>n. dict_find (nodes i) num = Some n \<longrightarrow> \<not> truthy n) \<longrightarrow>
            m_from_id m = raw_id)"
  proof (intro allI impI conjI)
    fix i e
    assume "interface self = Some i \<and> truthy num" "lookup_node (nodes i) raw_id num = Inl e"
    then show "m_from_id m = raw_id" using name resolve_lookup_raises by metis
  next
    fix i
    assume "interface self = Some i \<and> truthy num"
      "dict_find (nodes i) raw_id = None \<and> dict_find (nodes i) num = None"
    then show "m_from_id m = raw_id" using name resolve_absent by metis
  next
    fix i node
    assume "interface self = Some i \<and> truthy num"
      "hashable raw_id \<and> dict_find (nodes i) raw_id = Some node \<and> truthy node"
    then show "m_from_id m = node_name node raw_id" using name resolve_by_id by metis
  next
    fix i node
    assume a: "interface self = Some i \<and> truthy num"
      "hashable raw_id \<and> hashable num
        \<and> (\<forall>n. dict_find (nodes i) raw_id = Some n \<longrightarrow> \<not> truthy n)
        \<and> dict_find (nodes i) num = Some node \<and> truthy node"
    then have "resolve_from_name (Some i) raw_id num = node_name node raw_id"
      by (intro resolve_by_num) simp_all
    then show "m_from_id m = node_name node raw_id" using name a(1) by simp
  next
    fix i
    assume "interface self = Some i \<and> truthy num" "\<not> hashable raw_id"
    then show "m_from_id m = raw_id" using name resolve_unhashable_id by metis
  next
    fix i
    assume a: "interface self = Some i \<and> truthy num"
      "hashable raw_id \<and> (\<forall>n. dict_find (nodes i) raw_id = Some n \<longrightarrow> \<not> truthy n)
        \<and> \<not> hashable num"
    then have "resolve_from_name (Some i) raw_id num = raw_id"
      by (intro resolve_unhashable_num) simp_all
    then show "m_from_id m = raw_id" using name a(1) by simp
  next
    fix i
    assume a: "interface self = Some i \<and> truthy num"
      "(\<forall>n. dict_find (nodes i) raw_id = Some n \<longrightarrow> \<not> truthy n)
        \<and> (\<forall>n. dict_find (nodes i) num = Some n \<longrightarrow> \<not> truthy n)"
    then have "resolve_from_name (Some i) raw_id num = raw_id"
      by (intro resolve_no_entry) simp_all
    then show "m_from_id m = raw_id" using name a(1) by simp
  qed
  have 3: "\<forall>nd u. dict_find nd (PStr ''user'') = Some (PDict u) \<longrightarrow>
         node_name (PDict nd) raw_id =
           (if truthy (dict_get u (PStr ''longName'') PNone)
            then dict_get u (PStr ''longName'') PNone
            else if truthy (dict_get u (PStr ''shortName'') PNone)
                 then dict_get u (PStr ''shortName'') PNone
            else raw_id)"
    using node_name_user by blast
  have 4: "\<forall>nd. dict_find nd (PStr ''user'') = None \<longrightarrow> node_name (PDict nd) raw_id = raw_id"
    using node_name_no_user by blast
  have 5: "\<forall>nd v. dict_find nd (PStr ''user'') = Some v \<and> (\<forall>u. v \<noteq> PDict u) \<longrightarrow>
         node_name (PDict nd) raw_id = raw_id"
    using node_name_user_not_dict by blast
  have 6: "\<forall>node. (\<forall>nd. node \<noteq> PDict nd) \<longrightarrow> node_name node raw_id = raw_id"
    using node_name_not_dict by blast
  show ?thesis
    using 1 2 3 4 5 6 by (intro conjI)
qed

theorem sender_name_resolution_witness:
  "process_packet
     (linked [(PInt 7, PDict [(PStr ''user'', PDict [(PStr ''longName'', PStr []), (PStr ''shortName'', PStr ''AL'')])])])
     0 text_packet
   = Some (DirectMessage (PStr ''AL'') (PInt 7) (PStr ''Unknown'') (PStr ''hello'') (PInt 0) text_packet)
   \<and> m_from_id (DirectMessage (PStr ''AL'') (PInt 7) (PStr ''Unknown'') (PStr ''hello'') (PInt 0) text_packet)
     = node_name (PDict [(PStr ''user'', PDict [(PStr ''longName'', PStr []), (PStr ''shortName'', PStr ''AL'')])]) (PStr ''!a1b2'')
   \<and> node_name (PDict [(PStr ''user'', PDict [(PStr ''longName'', PStr []), (PStr ''shortName'', PStr ''AL'')])]) (PStr ''!a1b2'')
     = PStr ''AL''
   \<and> process_packet (linked [(PStr ''!a1b2'', PDict [])]) 0 text_packet
     = Some (DirectMessage (PStr ''!a1b2'') (PInt 7) (PStr ''Unknown'') (PStr ''hello'') (PInt 0) text_packet)
   \<and> node_name (PStr ''Alice'') (PStr ''!a1b2'') = PStr ''!a1b2''
   \<and> node_name (PDict [(PStr ''user'', PStr ''Alice'')]) (PStr ''!a1b2'') = PStr ''!a1b2''"
proof -
  let ?u = "[(PStr ''longName'', PStr []), (PStr ''shortName'', PStr ''AL'')]"
  let ?nd = "[(PStr ''user'', PDict ?u)]"
  let ?ns = "[(PInt 7, PDict ?nd)]"
  let ?m = "DirectMessage (PStr ''AL'') (PInt 7) (PStr ''Unknown'') (PStr ''hello'') (PInt 0) text_packet"
  have h1: "process_packet (linked ?ns) 0 text_packet = Some ?m"
    by (simp add: eval_defs)
  have h2: "PStr ''!a1b2'' = dict_get text_packet (PStr ''fromId'') (PStr ''Unknown'')"
    by (simp add: dict_get_def key_eq_def)
  have h3: "PInt 7 = dict_get text_packet (PStr ''from'') (PInt 0)"
    by (simp add: dict_get_def key_eq_def)
  note inst = sender_name_resolution[OF h1 h2 h3]
  have i: "interface (linked ?ns) = Some (link_with ?ns) \<and> truthy (PInt 7)" by simp
  have by_num: "hashable (PStr ''!a1b2'') \<and> hashable (PInt 7)
      \<and> (\<forall>n. dict_find (nodes (link_with ?ns)) (PStr ''!a1b2'') = Some n \<longrightarrow> \<not> truthy n)
      \<and> dict_find (nodes (link_with ?ns)) (PInt 7) = Some (PDict ?nd) \<and> truthy (PDict ?nd)"
    by (simp add: key_eq_def)
  have u: "dict_find ?nd (PStr ''user'') = Some (PDict ?u)"
    by (simp add: key_eq_def)
  have a: "m_from_id ?m = node_name (PDict ?nd) (PStr ''!a1b2'')"
    using inst i by_num by blast
  have b: "node_name (PDict ?nd) (PStr ''!a1b2'') = PStr ''AL''"
  proof -
    from inst u have "node_name (PDict ?nd) (PStr ''!a1b2'') =
           (if truthy (dict_get ?u (PStr ''longName'') PNone)
            then dict_get ?u (PStr ''longName'') PNone
            else if truthy (dict_get ?u (PStr ''shortName'') PNone)
                 then dict_get ?u (PStr ''shortName'') PNone
            else PStr ''!a1b2'')"
      by blast
    then show ?thesis by (simp add: dict_get_def key_eq_def)
  qed
  let ?es = "[(PStr ''!a1b2'', PDict [])]"
  obtain m' where m': "process_packet (linked ?es) 0 text_packet = Some m'"
    "m' = DirectMessage (m_from_id m') (PInt 7) (PStr ''Unknown'') (PStr ''hello'') (PInt 0)
            text_packet"
    by (simp add: process_packet_def Let_def py_in_def dict_get_def py_get_def key_eq_def)
  note inst' = sender_name_resolution[OF m'(1) h2 h3]
  have i': "interface (linked ?es) = Some (link_with ?es) \<and> truthy (PInt 7)" by simp
  have none: "(\<forall>n. dict_find (nodes (link_with ?es)) (PStr ''!a1b2'') = Some n \<longrightarrow> \<not> truthy n)
      \<and> (\<forall>n. dict_find (nodes (link_with ?es)) (PInt 7) = Some n \<longrightarrow> \<not> truthy n)"
    by (simp add: key_eq_def)
  have "m_from_id m' = PStr ''!a1b2''"
    using inst' i' none by blast
  then have c: "process_packet (linked ?es) 0 text_packet
     = Some (DirectMessage (PStr ''!a1b2'') (PInt 7) (PStr ''Unknown'') (PStr ''hello'') (PInt 0)
         text_packet)"
    using m' by simp
  have d: "node_name (PStr ''Alice'') (PStr ''!a1b2'') = PStr ''!a1b2''"
    using inst by blast
  have "dict_find [(PStr ''user'', PStr ''Alice'')] (PStr ''user'') = Some (PStr ''Alice'')
      \<and> (\<forall>u. PStr ''Alice'' \<noteq> PDict u)"
    by (simp add: key_eq_def)
  then have e: "node_name (PDict [(PStr ''user'', PStr ''Alice'')]) (PStr ''!a1b2'')
      = PStr ''!a1b2''"
    using inst by blast
  show ?thesis using h1 a b c d e by blast
qed

theorem sender_lookup_by_display_id_counterexample:
  "dict_find alice_by_id (PInt 7) = None
   \<and> process_packet (linked alice_by_id) 0 text_packet
     = Some (DirectMessage (PStr ''Alice'') (PInt 7) (PStr ''Unknown'') (PStr ''hello'') (PInt 0)
         text_packet)"
  by (simp add: eval_defs)

section \<open>Scheduling on the event loop\<close>

lemma schedule_open_loop:
  "loop h = Some l \<Longrightarrow> l \<notin> closed_loops h \<Longrightarrow>
   schedule_discord_task c h = h\<lparr>submitted := submitted h @ [(l, c)]\<rparr>"
  by (simp add: schedule_discord_task_def)

lemma schedule_all_open_loop:
  "loop h = Some l \<Longrightarrow> l \<notin> closed_loops h \<Longrightarrow>
   foldl (\<lambda>h c. schedule_discord_task c h) h cs = h\<lparr>submitted := submitted h @ map (Pair l) cs\<rparr>"
proof (induction cs arbitrary: h)
  case Nil
  then show ?case by simp
next
  case (Cons c cs)
  let ?h = "h\<lparr>submitted := submitted h @ [(l, c)]\<rparr>"
  have "foldl (\<lambda>h c. schedule_discord_task c h) ?h cs
        = ?h\<lparr>submitted := submitted ?h @ map (Pair l) cs\<rparr>"
    using Cons.prems by (intro Cons.IH) simp_all
  then show ?case
    using Cons.prems by (simp add: schedule_open_loop)
qed

text \<open>
  C8.  A call of \<^verbatim>\<open>_schedule_discord_task\<close> before the event loop has been set returns
  with one line added to the log and nothing else changed.  Once a loop that is not
  closed has been set, every task scheduled afterwards is submitted to that loop, in
  the order of the calls.
\<close>

theorem schedule_before_loop_is_set:
  assumes "loop self = None"
  shows "schedule_discord_task coro self =
           self\<lparr>log := log self @ [''Event loop not set, cannot schedule Discord task'']\<rparr>
    \<and> (\<forall>l cs. l \<notin> closed_loops self \<longrightarrow>
          foldl (\<lambda>h c. schedule_discord_task c h)
            (set_event_loop l (schedule_discord_task coro self)) cs
          = (set_event_loop l (schedule_discord_task coro self))
              \<lparr>submitted := submitted self @ map (Pair l) cs\<rparr>)"
proof (intro conjI allI impI)
  show first: "schedule_discord_task coro self =
           self\<lparr>log := log self @ [''Event loop not set, cannot schedule Discord task'']\<rparr>"
    using assms by (simp add: schedule_discord_task_def)
  fix l cs
  assume "l \<notin> closed_loops self"
  let ?h = "set_event_loop l (schedule_discord_task coro self)"
  have "loop ?h = Some l" "l \<notin> closed_loops ?h" "submitted ?h = submitted self"
    using \<open>l \<notin> closed_loops self\<close> by (simp_all add: first set_event_loop_def)
  then show "foldl (\<lambda>h c. schedule_discord_task c h) ?h cs
              = ?h\<lparr>submitted := submitted self @ map (Pair l) cs\<rparr>"
    using schedule_all_open_loop[of ?h l cs] by simp
qed

theorem schedule_before_loop_is_set_witness:
  "loop \<lparr>loop = None, closed_loops = {}, submitted = [], log = []\<rparr> = None
   \<and> schedule_discord_task (send_error_notification ''lost'')
       \<lparr>loop = None, closed_loops = {}, submitted = [], log = []\<rparr>
     = \<lparr>loop = None, closed_loops = {}, submitted = [],
        log = [''Event loop not set, cannot schedule Discord task'']\<rparr>
   \<and> foldl (\<lambda>h c. schedule_discord_task c h)
       (set_event_loop 1 (schedule_discord_task (send_error_notification ''lost'')
          \<lparr>loop = None, closed_loops = {}, submitted = [], log = []\<rparr>))
       [send_error_notification ''a'', send_error_notification ''b'']
     = \<lparr>loop = Some 1, closed_loops = {},
        submitted = [(1, send_error_notification ''a''), (1, send_error_notification ''b'')],
        log = [''Event loop not set, cannot schedule Discord task'']\<rparr>"
proof -
  let ?h = "\<lparr>loop = None, closed_loops = {}, submitted = [], log = []\<rparr> :: message_handler"
  have h: "loop ?h = None" by simp
  note inst = schedule_before_loop_is_set[OF h, of "send_error_notification ''lost''"]
  have a: "schedule_discord_task (send_error_notification ''lost'') ?h
     = \<lparr>loop = None, closed_loops = {}, submitted = [],
        log = [''Event loop not set, cannot schedule Discord task'']\<rparr>"
    using conjunct1[OF inst] by simp
  have "(1::nat) \<notin> closed_loops ?h" by simp
  with conjunct2[OF inst] have
    "foldl (\<lambda>h c. schedule_discord_task c h)
       (set_event_loop 1 (schedule_discord_task (send_error_notification ''lost'') ?h))
       [send_error_notification ''a'', send_error_notification ''b'']
     = (set_event_loop 1 (schedule_discord_task (send_error_notification ''lost'') ?h))
         \<lparr>submitted := submitted ?h @ map (Pair 1) [send_error_notification ''a'', send_error_notification ''b'']\<rparr>"
    by blast
  then have b: "foldl (\<lambda>h c. schedule_discord_task c h)
       (set_event_loop 1 (schedule_discord_task (send_error_notification ''lost'') ?h))
       [send_error_notification ''a'', send_error_notification ''b'']
     = \<lparr>loop = Some 1, closed_loops = {},
        submitted = [(1, send_error_notification ''a''), (1, send_error_notification ''b'')],
        log = [''Event loop not set, cannot schedule Discord task'']\<rparr>"
    by (simp only: a) (simp add: set_event_loop_def)
  show ?thesis using h a b by blast
qed

section \<open>The send command\<close>

lemma send_too_long_state: "length message > 240 \<Longrightarrow> snd (send self ch message b) = b"
  by (simp add: send_def split: option.splits)

lemma send_too_long_reply:
  "length message > 240 \<Longrightarrow> ch = channel_id self \<Longrightarrow> send_mesh_message_callback self = Some cb \<Longrightarrow>
   send self ch message b = (MessageTooLong (length message), b)"
  by (simp add: send_def)

lemma send_mesh_message_connected:
  "meshtastic_client b = Some c \<Longrightarrow> is_connected c \<Longrightarrow> interface c = Some i \<Longrightarrow>
   send_mesh_message message b =
     (\<not> sendText_raises i message,
      b\<lparr>meshtastic_client :=
           Some (c\<lparr>interface :=
                    Some (i\<lparr>sendText_calls := sendText_calls i @ [(message, None)]\<rparr>)\<rparr>)\<rparr>)"
  by (simp add: send_mesh_message_def send_text_def Let_def)

lemma send_forwarded:
  assumes "length message \<le> 240" and "ch = channel_id self"
    and "send_mesh_message_callback self = Some send_mesh_message"
    and "meshtastic_client b = Some c" and "is_connected c" and "interface c = Some i"
  shows "send self ch message b =
     (if sendText_raises i message then SendFailed else MessageSent message (length message),
      b\<lparr>meshtastic_client :=
           Some (c\<lparr>interface :=
                    Some (i\<lparr>sendText_calls := sendText_calls i @ [(message, None)]\<rparr>)\<rparr>)\<rparr>)"
  using assms(1,2,3) by (simp add: send_def send_mesh_message_connected[OF assms(4,5,6)])

text \<open>
  C2, as the code has it.  A message of more than 240 characters never reaches the
  interface, whatever the state.  For a command that comes from the configured channel
  when the send callback has been registered: a message of more than 240 characters is
  answered with the too-long reply; a message of at most 240 characters, with the
  client connected, is handed to the interface's \<^verbatim>\<open>sendText\<close> once, without
  destination, and the reply is the success reply when that call returns and the
  failure reply when it raises.
\<close>

theorem send_command_length_limit:
  "(length message > 240 \<longrightarrow> snd (send self ch message b) = b)
   \<and> (\<forall>cb. length message > 240 \<and> ch = channel_id self \<and> send_mesh_message_callback self = Some cb \<longrightarrow>
         send self ch message b = (MessageTooLong (length message), b))
   \<and> (\<forall>c i. length message \<le> 240 \<and> ch = channel_id self
          \<and> send_mesh_message_callback self = Some send_mesh_message
          \<and> meshtastic_client b = Some c \<and> is_connected c \<and> interface c = Some i \<longrightarrow>
         send self ch message b =
           (if sendText_raises i message then SendFailed
            else MessageSent message (length message),
            b\<lparr>meshtastic_client :=
                 Some (c\<lparr>interface :=
                          Some (i\<lparr>sendText_calls := sendText_calls i @ [(message, None)]\<rparr>)\<rparr>)\<rparr>))"
  using send_too_long_state send_too_long_reply send_forwarded by (intro conjI allI impI) blast+

theorem send_command_length_limit_witness:
  "send \<lparr>channel_id = 42, send_mesh_message_callback = Some send_mesh_message\<rparr> 42
     (replicate 241 CHR ''x'')
     \<lparr>meshtastic_client = Some (linked []),
      message_handler = \<lparr>loop = Some 0, closed_loops = {}, submitted = [], log = []\<rparr>,
      clock = 0, trace = []\<rparr>
   = (MessageTooLong 241,
      \<lparr>meshtastic_client = Some (linked []),
       message_handler = \<lparr>loop = Some 0, closed_loops = {}, submitted = [], log = []\<rparr>,
       clock = 0, trace = []\<rparr>)
   \<and> send \<lparr>channel_id = 42, send_mesh_message_callback = Some send_mesh_message\<rparr> 42
     (replicate 240 CHR ''x'')
     \<lparr>meshtastic_client = Some (linked []),
      message_handler = \<lparr>loop = Some 0, closed_loops = {}, submitted = [], log = []\<rparr>,
      clock = 0, trace = []\<rparr>
   = (MessageSent (replicate 240 CHR ''x'') 240,
      \<lparr>meshtastic_client =
         Some \<lparr>device_path = ''/dev/ttyACM0'',
               interface = Some \<lparr>nodes = [], sendText_calls = [(replicate 240 CHR ''x'', None)],
                                  sendText_raises = (\<lambda>t. False), close_raises = False\<rparr>,
               connected = True\<rparr>,
       message_handler = \<lparr>loop = Some 0, closed_loops = {}, submitted = [], log = []\<rparr>,
       clock = 0, trace = []\<rparr>)"
proof -
  let ?dc = "\<lparr>channel_id = 42, send_mesh_message_callback = Some send_mesh_message\<rparr>"
  let ?b = "\<lparr>meshtastic_client = Some (linked []),
      message_handler = \<lparr>loop = Some 0, closed_loops = {}, submitted = [], log = []\<rparr>,
      clock = 0, trace = []\<rparr>"
  have long: "length (replicate 241 CHR ''x'') > 240 \<and> 42 = channel_id ?dc
      \<and> send_mesh_message_callback ?dc = Some send_mesh_message"
    by simp
  have short: "length (replicate 240 CHR ''x'') \<le> 240 \<and> 42 = channel_id ?dc
      \<and> send_mesh_message_callback ?dc = Some send_mesh_message
      \<and> meshtastic_client ?b = Some (linked []) \<and> is_connected (linked [])
      \<and> interface (linked []) = Some (link_with [])"
    by (simp add: is_connected_def)
  have a: "send ?dc 42 (replicate 241 CHR ''x'') ?b
      = (MessageTooLong (length (replicate 241 CHR ''x'')), ?b)"
    using send_command_length_limit[of "replicate 241 CHR ''x''" ?dc 42 ?b] long by blast
  have b: "send ?dc 42 (replicate 240 CHR ''x'') ?b
      = (if sendText_raises (link_with []) (replicate 240 CHR ''x'') then SendFailed
            else MessageSent (replicate 240 CHR ''x'') (length (replicate 240 CHR ''x'')),
         ?b\<lparr>meshtastic_client :=
                 Some ((linked [])\<lparr>interface :=
                          Some ((link_with [])\<lparr>sendText_calls := sendText_calls (link_with []) @ [(replicate 240 CHR ''x'', None)]\<rparr>)\<rparr>)\<rparr>)"
    using send_command_length_limit[of "replicate 240 CHR ''x''" ?dc 42 ?b] short by blast
  show ?thesis
    by (simp only: a b) simp
qed

theorem send_before_callbacks_counterexample:
  "length (replicate 241 CHR ''x'') > 240
   \<and> fst (send \<lparr>channel_id = 42, send_mesh_message_callback = None\<rparr> 42
       (replicate 241 CHR ''x'')
       \<lparr>meshtastic_client = Some (linked []),
        message_handler = \<lparr>loop = Some 0, closed_loops = {}, submitted = [], log = []\<rparr>,
        clock = 0, trace = []\<rparr>)
     = ConnectionNotAvailable"
  by (simp add: send_def)

section \<open>The order of the node list\<close>




























section \<open>The reconnect loop\<close>

lemma attempt_times_append:
  "attempt_times (tr @ tr') = attempt_times tr @ attempt_times tr'"
  by (simp add: attempt_times_def)

lemma keep_alive_ends:
  "\<exists>r \<in> set rs. \<not> (fst r \<and> snd r) \<Longrightarrow>
   \<exists>b'. keep_alive rs b = Some b' \<and> clock b \<le> clock b'
        \<and> attempt_times (trace b') = attempt_times (trace b)
        \<and> meshtastic_client b' = meshtastic_client b"
proof (induction rs arbitrary: b)
  case Nil
  then show ?case by simp
next
  case (Cons r rs)
  obtain running conn where r: "r = (running, conn)" by (cases r)
  show ?case
  proof (cases "running \<and> conn")
    case True
    then have "\<exists>r \<in> set rs. \<not> (fst r \<and> snd r)" using Cons.prems r by auto
    from Cons.IH[OF this, of "sleep 1 (emit KeepAlive b)"] True r
    show ?thesis
      by (auto simp: sleep_def emit_def attempt_times_def)
  next
    case False
    then show ?thesis using r by auto
  qed
qed

lemma release_facts:
  "clock (release b) = clock b \<and> attempt_times (trace (release b)) = attempt_times (trace b)"
  by (simp add: release_def emit_def attempt_times_def split: option.splits)

lemma connection_lost_facts:
  "clock (connection_lost b) = clock b
   \<and> attempt_times (trace (connection_lost b)) = attempt_times (trace b)"
  by (simp add: connection_lost_def emit_def attempt_times_def)

lemma backoff_facts:
  "running_at_backoff e \<Longrightarrow>
   clock (backoff cfg e b) = clock b + reconnect_delay cfg
   \<and> attempt_times (trace (backoff cfg e b)) = attempt_times (trace b)
   \<and> last (trace (backoff cfg e b)) = (clock b, Backoff (reconnect_delay cfg))"
  by (simp add: backoff_def sleep_def emit_def attempt_times_def)

lemma failure_tail:
  assumes "running_at_backoff e"
  shows "clock (backoff cfg e (release (connection_lost b))) = clock b + reconnect_delay cfg
    \<and> attempt_times (trace (backoff cfg e (release (connection_lost b))))
        = attempt_times (trace b)
    \<and> last (trace (backoff cfg e (release (connection_lost b))))
        = (clock b, Backoff (reconnect_delay cfg))"
  using backoff_facts[OF assms, of cfg "release (connection_lost b)"]
    release_facts[of "connection_lost b"] connection_lost_facts[of b]
  by simp

text \<open>A pass that ends in failure with the flag set ends with the full backoff sleep.\<close>

lemma loop_body_failure:
  assumes "ends_in_failure e" and "running_at_backoff e"
  shows "\<exists>b'. loop_body cfg e b = Some (False, b')
     \<and> clock b + reconnect_delay cfg \<le> clock b'
     \<and> attempt_times (trace b') = attempt_times (trace b) @ [clock b]
     \<and> last (trace b') = (clock b' - reconnect_delay cfg, Backoff (reconnect_delay cfg))"
proof -
  let ?fresh = "\<lparr>device_path = meshtastic_device cfg, interface = None, connected = False\<rparr>"
  let ?b1 = "emit Subscribe (emit NewClient b)"
  obtain ok c where oc: "connect (outcome e) ?fresh = (ok, c)" by (cases "connect (outcome e) ?fresh")
  let ?b2 = "emit (CreateInterface ok) (?b1\<lparr>meshtastic_client := Some c\<rparr>)"
  have b2: "clock ?b2 = clock b" "attempt_times (trace ?b2) = attempt_times (trace b) @ [clock b]"
    by (simp_all add: emit_def attempt_times_def)
  show ?thesis
  proof (cases ok)
    case False
    then have "loop_body cfg e b = Some (False, backoff cfg e (release (connection_lost ?b2)))"
      using oc by (simp add: loop_body_def Let_def)
    then show ?thesis
      using failure_tail[OF assms(2), of cfg ?b2] b2 by simp
  next
    case True
    then obtain i where "outcome e = InterfaceReady i"
      using oc by (cases "outcome e") (auto simp: connect_def)
    then have "\<exists>r \<in> set (keep_alive_reads e). \<not> (fst r \<and> snd r)"
      and after: "running_after_keep_alive e"
      using assms(1) by (simp_all add: ends_in_failure_def)
    from keep_alive_ends[OF this(1), of ?b2] obtain b3 where
      b3: "keep_alive (keep_alive_reads e) ?b2 = Some b3" "clock ?b2 \<le> clock b3"
        "attempt_times (trace b3) = attempt_times (trace ?b2)"
      by blast
    have "loop_body cfg e b = Some (False, backoff cfg e (release (connection_lost b3)))"
      using oc True b3(1) after by (simp add: loop_body_def Let_def)
    then show ?thesis
      using failure_tail[OF assms(2), of cfg b3] b2 b3(2,3) by simp
  qed
qed

lemma spaced_Cons_append:
  "spaced d (ts @ [t']) \<Longrightarrow> t + d \<le> hd (ts @ [t']) \<Longrightarrow> spaced d (t # ts @ [t'])"
  by (cases ts) simp_all

lemma run_meshtastic_failures:
  assumes "\<forall>e \<in> set es. flag_still_set e \<and> ends_in_failure e"
  shows "\<exists>b' ts. run_meshtastic cfg es b = AtLoopHead b'
     \<and> attempt_times (trace b') = attempt_times (trace b) @ ts
     \<and> length ts = length es
     \<and> spaced (reconnect_delay cfg) (ts @ [clock b'])
     \<and> hd (ts @ [clock b']) = clock b
     \<and> clock b + length es * reconnect_delay cfg \<le> clock b'"
  using assms
proof (induction es arbitrary: b)
  case Nil
  then show ?case by simp
next
  case (Cons e es)
  have e: "running_at_head e" "running_at_backoff e" "ends_in_failure e"
    using Cons.prems by (simp_all add: flag_still_set_def)
  from loop_body_failure[OF e(3) e(2), of cfg b] obtain b1 where
    b1: "loop_body cfg e b = Some (False, b1)" "clock b + reconnect_delay cfg \<le> clock b1"
      "attempt_times (trace b1) = attempt_times (trace b) @ [clock b]"
    by blast
  from Cons.IH[of b1] Cons.prems obtain b' ts where
    IH: "run_meshtastic cfg es b1 = AtLoopHead b'"
      "attempt_times (trace b') = attempt_times (trace b1) @ ts"
      "length ts = length es"
      "spaced (reconnect_delay cfg) (ts @ [clock b'])"
      "hd (ts @ [clock b']) = clock b1"
      "clock b1 + length es * reconnect_delay cfg \<le> clock b'"
    by auto
  have run: "run_meshtastic cfg (e # es) b = AtLoopHead b'"
    using e(1) b1(1) IH(1) by simp
  have times: "attempt_times (trace b') = attempt_times (trace b) @ (clock b # ts)"
    using IH(2) b1(3) by simp
  have sp: "spaced (reconnect_delay cfg) ((clock b # ts) @ [clock b'])"
    using spaced_Cons_append[OF IH(4), of "clock b"] IH(5) b1(2) by simp
  have clk: "clock b + length (e # es) * reconnect_delay cfg \<le> clock b'"
    using b1(2) IH(6) by simp
  show ?case
    using run times sp clk IH(3)
    by (intro exI[of _ b'] exI[of _ "clock b # ts"]) simp
qed

text \<open>
  C6.  Over any number of consecutive passes of the reconnect loop that end in failure
  with the flag still set, every attempt to create the interface comes at least the
  configured delay after the one before, the loop is back at its head at least the
  delay after the last attempt, and the time slept is at least the number of failures
  times the delay.  Each such pass ends with the backoff sleep of the full delay.
\<close>

theorem backoff_between_attempts:
  assumes "\<forall>e \<in> set es. flag_still_set e \<and> ends_in_failure e"
  shows "(\<exists>b' ts. run_meshtastic cfg es b = AtLoopHead b'
       \<and> attempt_times (trace b') = attempt_times (trace b) @ ts
       \<and> length ts = length es
       \<and> spaced (reconnect_delay cfg) (ts @ [clock b'])
       \<and> clock b + length es * reconnect_delay cfg \<le> clock b')
     \<and> (\<forall>e \<in> set es. \<forall>b0. \<exists>b1. loop_body cfg e b0 = Some (False, b1)
           \<and> clock b0 + reconnect_delay cfg \<le> clock b1
           \<and> last (trace b1) = (clock b1 - reconnect_delay cfg, Backoff (reconnect_delay cfg)))"
proof (intro conjI ballI allI)
  show "\<exists>b' ts. run_meshtastic cfg es b = AtLoopHead b'
       \<and> attempt_times (trace b') = attempt_times (trace b) @ ts
       \<and> length ts = length es
       \<and> spaced (reconnect_delay cfg) (ts @ [clock b'])
       \<and> clock b + length es * reconnect_delay cfg \<le> clock b'"
    using run_meshtastic_failures[OF assms, of cfg b] by blast
next
  fix e b0
  assume "e \<in> set es"
  then have "ends_in_failure e" "running_at_backoff e"
    using assms by (auto simp: flag_still_set_def)
  from loop_body_failure[OF this, of cfg b0]
  show "\<exists>b1. loop_body cfg e b0 = Some (False, b1)
           \<and> clock b0 + reconnect_delay cfg \<le> clock b1
           \<and> last (trace b1) = (clock b1 - reconnect_delay cfg, Backoff (reconnect_delay cfg))"
    by blast
qed

theorem backoff_between_attempts_witness:
  "flag_still_set failed_connect \<and> ends_in_failure failed_connect
   \<and> flag_still_set lost_connection \<and> ends_in_failure lost_connection
   \<and> (\<exists>b' ts. run_meshtastic example_config [failed_connect, lost_connection, failed_connect]
                 idle_bridge = AtLoopHead b'
         \<and> attempt_times (trace b') = ts
         \<and> length ts = 3
         \<and> spaced 5 (ts @ [clock b'])
         \<and> 15 \<le> clock b')"
proof -
  let ?es = "[failed_connect, lost_connection, failed_connect]"
  have f: "flag_still_set failed_connect \<and> ends_in_failure failed_connect"
    by (simp add: flag_still_set_def ends_in_failure_def)
  have l: "flag_still_set lost_connection \<and> ends_in_failure lost_connection"
    by (simp add: flag_still_set_def ends_in_failure_def)
  have h: "\<forall>e \<in> set ?es. flag_still_set e \<and> ends_in_failure e"
    using f l by simp
  from conjunct1[OF backoff_between_attempts[OF h, of example_config idle_bridge]]
  obtain b' ts where
    "run_meshtastic example_config ?es idle_bridge = AtLoopHead b'"
    "attempt_times (trace b') = attempt_times (trace idle_bridge) @ ts"
    "length ts = length ?es"
    "spaced (reconnect_delay example_config) (ts @ [clock b'])"
    "clock idle_bridge + length ?es * reconnect_delay example_config \<le> clock b'"
    by blast
  then have "run_meshtastic example_config ?es idle_bridge = AtLoopHead b'
         \<and> attempt_times (trace b') = ts \<and> length ts = 3
         \<and> spaced 5 (ts @ [clock b']) \<and> 15 \<le> clock b'"
    by (simp add: attempt_times_def)
  then show ?thesis using f l by blast
qed

end
